theory Spec2Isabelle
  imports Main
begin

section \<open>The session controller of the speech-to-text converter (src/src/App.js)\<close>

text \<open>
  The component \<open>App\<close> keeps its state in React state cells and refs and reacts to
  events of the browser: clicks, the settling of a \<open>fetch\<close>, the stop of the media
  recorder. Every handler runs to its next \<open>await\<close> without interruption, so a handler is
  a function from the world before the event to the world after it, and an \<open>async\<close>
  handler is one function for the part before the \<open>await\<close> and one for its continuation.
  The world holds the state cells of the component and the part of the browser the
  handlers act on: the object URLs created and revoked, the requests sent, the abort
  signals raised and the local storage.

  JavaScript strings are modelled as \<^typ>\<open>string\<close>, read as lists of code units below
  256; \<open>Date.now()\<close> and \<open>toLocaleString()\<close> are read from a clock that the
  environment passes in. \<open>JSON.stringify\<close> and \<open>JSON.parse\<close> are modelled on
  these strings, after the grammar of JSON. The timer of the recording, the chunks of the recorder, the
  clipboard and the download of the transcript are left out: they touch none of the
  state that the properties below speak about, except that copying sets the success flag.
\<close>

subsection \<open>Strings\<close>

definition startsWith :: "string \<Rightarrow> string \<Rightarrow> bool" where
  "startsWith s p \<longleftrightarrow> take (length p) s = p"

text \<open>The code units below 256 that the regular expression class \<open>\s\<close> matches.\<close>

definition is_space :: "char \<Rightarrow> bool" where
  "is_space c \<longleftrightarrow> c \<in> set [CHR 0x09, CHR 0x0A, CHR 0x0B, CHR 0x0C, CHR 0x0D, CHR 0x20, CHR 0xA0]"

text \<open>
  \<open>s.split(/\s+/)\<close>: the pieces of \<open>s\<close> between the maximal runs of white space; a
  string that starts or ends with white space has an empty first or last piece.
\<close>

function split_ws :: "string \<Rightarrow> string \<Rightarrow> string list" where
  "split_ws cur [] = [rev cur]"
| "split_ws cur (c # cs) =
     (if is_space c then rev cur # split_ws [] (dropWhile is_space cs)
      else split_ws (c # cur) cs)"
  by pat_completeness auto
termination
  by (relation "measure (\<lambda>(cur, s). length s)")
     (auto simp: length_dropWhile_le less_Suc_eq_le)

definition digit_char :: "nat \<Rightarrow> char" where
  "digit_char d = ''0123456789'' ! d"

text \<open>The decimal numeral that a template literal prints for a natural number.\<close>

fun decimal :: "nat \<Rightarrow> string" where
  "decimal n = (if n < 10 then [digit_char n] else decimal (n div 10) @ [digit_char (n mod 10)])"

declare decimal.simps [simp del]

subsection \<open>Data\<close>

text \<open>The object literal \<open>historyItem\<close> of \<open>sendAudioToBackend\<close>.\<close>

record history_item =
  item_id :: int
  item_timestamp :: string
  item_text :: string
  item_filename :: string
  item_audioUrl :: string
  item_wordCount :: nat
  item_charCount :: nat

text \<open>The fields of a \<open>File\<close> that \<open>handleFileUpload\<close> reads.\<close>

record upload_file =
  file_type :: string
  file_size :: nat
  file_name :: string

text \<open>
  A request sent by \<open>fetch\<close>, with the variables its continuation closes over: the
  abort controller made for it (named by a number), the file name and the object URL.
\<close>

record request =
  req_controller :: nat
  req_filename :: string
  req_audioUrl :: string

record js_error =
  err_name :: string
  err_message :: string

text \<open>
  The body of a response as the backend sends it: a JSON object whose fields
  \<open>transcription\<close> and \<open>text\<close> are strings when they are present.
\<close>

record response_data =
  data_transcription :: "string option"
  data_text :: "string option"

datatype json_result = JsonRejected js_error | JsonParsed response_data

text \<open>
  How the exchange with the backend ends: \<open>fetch\<close> rejects, or it resolves to a
  response with its \<open>ok\<close> flag and \<open>status\<close>, whose \<open>json()\<close> rejects or resolves.
\<close>

datatype exchange = FetchRejected js_error | FetchResponded bool nat json_result

record clock =
  now :: int
  localeString :: string

record world =
  recording :: bool
  transcript :: string
  loading :: bool
  error :: string
  success :: bool
  recordingTime :: nat
  audioUrl :: string
  history :: "history_item list"
  selectedHistory :: "int option"
  uploadController :: "nat option"
  mediaRecorder :: bool
  objectUrls :: "string list"
  revokedUrls :: "string list"
  fetches :: "request list"
  abortedControllers :: "nat list"
  localStorage :: "string \<rightharpoonup> string"

text \<open>The component as it is constructed, over the local storage it finds.\<close>

definition mount :: "(string \<rightharpoonup> string) \<Rightarrow> world" where
  "mount store =
     \<lparr>recording = False, transcript = '''', loading = False, error = '''', success = False,
      recordingTime = 0, audioUrl = '''', history = [], selectedHistory = None,
      uploadController = None, mediaRecorder = False, objectUrls = [], revokedUrls = [],
      fetches = [], abortedControllers = [], localStorage = store\<rparr>"

subsection \<open>The browser\<close>

text \<open>\<open>URL.createObjectURL\<close> hands out a URL of the scheme \<open>blob:\<close> that is new each time.\<close>

definition createObjectURL :: "world \<Rightarrow> string \<times> world" where
  "createObjectURL w =
     (let url = ''blob:'' @ decimal (length (objectUrls w))
      in (url, w\<lparr>objectUrls := objectUrls w @ [url]\<rparr>))"

definition revokeObjectURL :: "string \<Rightarrow> world \<Rightarrow> world" where
  "revokeObjectURL url w = w\<lparr>revokedUrls := revokedUrls w @ [url]\<rparr>"

text \<open>
  What the continuation of a request observes: once the signal of its controller is
  aborted, the pending promise rejects with an error named \<open>AbortError\<close>, whatever the
  exchange itself would have brought.
\<close>

definition abort_error :: js_error where
  "abort_error = \<lparr>err_name = ''AbortError'', err_message = ''The user aborted a request.''\<rparr>"

definition observed :: "request \<Rightarrow> exchange \<Rightarrow> world \<Rightarrow> exchange" where
  "observed r ex w =
     (if req_controller r \<in> set (abortedControllers w) then FetchRejected abort_error else ex)"

subsection \<open>Sending audio to the backend\<close>


definition sendAudioToBackend :: "string \<Rightarrow> string \<Rightarrow> world \<Rightarrow> world" where
  "sendAudioToBackend filename url w =
     (let c = length (fetches w)
      in w\<lparr>loading := True, transcript := '''', uploadController := Some c,
            fetches := fetches w @ [\<lparr>req_controller = c, req_filename = filename, req_audioUrl = url\<rparr>]\<rparr>)"

text \<open>\<open>data.transcription || data.text || 'No transcription available'\<close>: a field that
  is absent and a field that is the empty string are both falsy, and \<open>||\<close> then yields
  its right operand.\<close>

definition or_else :: "string option \<Rightarrow> string \<Rightarrow> string" where
  "or_else v other = (case v of None \<Rightarrow> other | Some s \<Rightarrow> if s = [] then other else s)"

definition pick_transcription :: "response_data \<Rightarrow> string" where
  "pick_transcription d =
     or_else (data_transcription d) (or_else (data_text d) ''No transcription available'')"

definition count_words :: "string \<Rightarrow> nat" where
  "count_words t = length (filter (\<lambda>word. length word > 0) (split_ws [] t))"

definition make_historyItem :: "clock \<Rightarrow> string \<Rightarrow> string \<Rightarrow> string \<Rightarrow> history_item" where
  "make_historyItem clk transcription filename url =
     \<lparr>item_id = now clk, item_timestamp = localeString clk, item_text = transcription,
      item_filename = filename, item_audioUrl = url,
      item_wordCount = count_words transcription, item_charCount = length transcription\<rparr>"

text \<open>The updater \<open>prev => [historyItem, ...prev].slice(0, 10)\<close>.\<close>

definition history_updater :: "history_item \<Rightarrow> history_item list \<Rightarrow> history_item list" where
  "history_updater historyItem prev = take 10 (historyItem # prev)"

definition server_error :: "nat \<Rightarrow> js_error" where
  "server_error status = \<lparr>err_name = ''Error'', err_message = ''Server error: '' @ decimal status\<rparr>"

definition catch_block :: "js_error \<Rightarrow> world \<Rightarrow> world" where
  "catch_block err w =
     (if err_name err = ''AbortError'' then w\<lparr>error := ''Upload cancelled''\<rparr>
      else w\<lparr>error := (if err_message err = [] then ''Failed to transcribe audio'' else err_message err)\<rparr>)"

definition finally_block :: "world \<Rightarrow> world" where
  "finally_block w = w\<lparr>loading := False, uploadController := None\<rparr>"

definition on_success :: "request \<Rightarrow> clock \<Rightarrow> response_data \<Rightarrow> world \<Rightarrow> world" where
  "on_success r clk d w =
     (let transcription = pick_transcription d;
          historyItem = make_historyItem clk transcription (req_filename r) (req_audioUrl r)
      in w\<lparr>transcript := transcription, success := True,
            history := history_updater historyItem (history w)\<rparr>)"

text \<open>The continuation of \<open>sendAudioToBackend\<close> after its \<open>await\<close>s.\<close>

definition sendAudioToBackend_resume :: "request \<Rightarrow> exchange \<Rightarrow> clock \<Rightarrow> world \<Rightarrow> world" where
  "sendAudioToBackend_resume r ex clk w =
     finally_block
       (case observed r ex w of
          FetchRejected err \<Rightarrow> catch_block err w
        | FetchResponded ok status body \<Rightarrow>
            if \<not> ok then catch_block (server_error status) w
            else (case body of
                    JsonRejected err \<Rightarrow> catch_block err w
                  | JsonParsed d \<Rightarrow> on_success r clk d w))"


subsection \<open>Recording and uploading\<close>

datatype media_result = StreamGranted | StreamFailed string

definition startRecording_begin :: "world \<Rightarrow> world" where
  "startRecording_begin w = w\<lparr>error := '''', success := False, transcript := '''', audioUrl := ''''\<rparr>"

definition startRecording_resume :: "media_result \<Rightarrow> world \<Rightarrow> world" where
  "startRecording_resume m w =
     (case m of
        StreamGranted \<Rightarrow> w\<lparr>mediaRecorder := True, recording := True\<rparr>
      | StreamFailed msg \<Rightarrow> w\<lparr>error := ''Microphone error: '' @ msg\<rparr>)"

definition startRecording :: "media_result \<Rightarrow> world \<Rightarrow> world" where
  "startRecording m w = startRecording_resume m (startRecording_begin w)"

text \<open>The handler \<open>onstop\<close> of the media recorder, up to the \<open>await\<close> of the request.\<close>

definition mediaRecorder_onstop :: "world \<Rightarrow> world" where
  "mediaRecorder_onstop w =
     (let (url, w1) = createObjectURL w
      in sendAudioToBackend ''recorded_audio.webm'' url (w1\<lparr>audioUrl := url\<rparr>))"

definition stopRecording :: "world \<Rightarrow> world" where
  "stopRecording w =
     (if mediaRecorder w \<and> recording w then mediaRecorder_onstop (w\<lparr>recording := False\<rparr>) else w)"

definition maxFileSize :: nat where
  "maxFileSize = 10 * 1024 * 1024"

text \<open>\<open>handleFileUpload\<close>, up to the \<open>await\<close> of the request; \<open>None\<close> is an event
  without a selected file.\<close>

definition handleFileUpload :: "upload_file option \<Rightarrow> world \<Rightarrow> world" where
  "handleFileUpload ev w =
     (case ev of
        None \<Rightarrow> w
      | Some file \<Rightarrow>
          if \<not> startsWith (file_type file) ''audio/'' then
            w\<lparr>error := ''Please select a valid audio file''\<rparr>
          else if file_size file > maxFileSize then
            w\<lparr>error := ''File size must be less than 10MB''\<rparr>
          else
            (let (url, w1) = createObjectURL (w\<lparr>error := '''', success := False\<rparr>)
             in sendAudioToBackend (file_name file) url (w1\<lparr>audioUrl := url\<rparr>)))"

subsection \<open>Clearing and history\<close>

definition clearCurrent :: "world \<Rightarrow> world" where
  "clearCurrent w =
     (let w1 = w\<lparr>transcript := '''', audioUrl := '''', error := '''', success := False\<rparr>
      in if audioUrl w \<noteq> [] then revokeObjectURL (audioUrl w) w1 else w1)"



definition loadFromHistory :: "history_item \<Rightarrow> world \<Rightarrow> world" where
  "loadFromHistory item w =
     w\<lparr>transcript := item_text item, audioUrl := item_audioUrl item,
       selectedHistory := Some (item_id item), error := '''', success := False\<rparr>"

subsection \<open>JSON\<close>





































subsection \<open>Persistence\<close>







subsection \<open>What is shown\<close>

text \<open>The conditions under which the error box and the success box are rendered.\<close>

definition shows_error :: "world \<Rightarrow> bool" where
  "shows_error w \<longleftrightarrow> error w \<noteq> []"

definition shows_success :: "world \<Rightarrow> bool" where
  "shows_success w \<longleftrightarrow> success w \<and> error w = [] \<and> \<not> loading w"


subsection \<open>Sequences of events\<close>

text \<open>A sequence of insertions into the history, the first of the list first.\<close>

fun insert_all :: "history_item list \<Rightarrow> history_item list \<Rightarrow> history_item list" where
  "insert_all [] h = h"
| "insert_all (item # items) h = insert_all items (history_updater item h)"

text \<open>The request sent last settles.\<close>

definition settle_latest :: "exchange \<Rightarrow> clock \<Rightarrow> world \<Rightarrow> world" where
  "settle_latest ex clk w =
     (case rev (fetches w) of [] \<Rightarrow> w | r # _ \<Rightarrow> sendAudioToBackend_resume r ex clk w)"

subsection \<open>Sample inputs\<close>

definition audio_file :: upload_file where
  "audio_file = \<lparr>file_type = ''audio/mpeg'', file_size = 2048, file_name = ''memo.mp3''\<rparr>"

definition png_file :: upload_file where
  "png_file = \<lparr>file_type = ''image/png'', file_size = 2048, file_name = ''photo.png''\<rparr>"

definition big_png_file :: upload_file where
  "big_png_file = \<lparr>file_type = ''image/png'', file_size = 10 * 1024 * 1024 + 1, file_name = ''photo.png''\<rparr>"

definition big_audio_file :: upload_file where
  "big_audio_file = \<lparr>file_type = ''audio/wav'', file_size = 10 * 1024 * 1024 + 1, file_name = ''long.wav''\<rparr>"

definition full_audio_file :: upload_file where
  "full_audio_file = \<lparr>file_type = ''audio/wav'', file_size = 10 * 1024 * 1024, file_name = ''full.wav''\<rparr>"

definition clock_at :: "nat \<Rightarrow> clock" where
  "clock_at n = \<lparr>now = 1700000000000 + 1000 * int n, localeString = ''11/14/2023, 10:13:20 PM''\<rparr>"

definition hi_response :: exchange where
  "hi_response = FetchResponded True 200 (JsonParsed \<lparr>data_transcription = Some ''hi'', data_text = None\<rparr>)"

text \<open>An upload of \<open>audio_file\<close> that the backend answers with \<open>{"transcription": "hi"}\<close>.\<close>

definition upload_at :: "clock \<Rightarrow> world \<Rightarrow> world" where
  "upload_at clk w = settle_latest hi_response clk (handleFileUpload (Some audio_file) w)"

text \<open>The record made from a clock reading, a transcription, a file name and a URL.\<close>

definition item_of :: "clock \<times> string \<times> string \<times> string \<Rightarrow> history_item" where
  "item_of x = (case x of (clk, transcription, filename, url) \<Rightarrow> make_historyItem clk transcription filename url)"

text \<open>The record that the \<open>n\<close>-th sample upload leaves in the history.\<close>

definition stored_item :: "nat \<Rightarrow> history_item" where
  "stored_item n =
     \<lparr>item_id = 1700000000000 + 1000 * int n, item_timestamp = ''11/14/2023, 10:13:20 PM'',
      item_text = ''hi'', item_filename = ''memo.mp3'', item_audioUrl = ''blob:'' @ decimal n,
      item_wordCount = 1, item_charCount = 2\<rparr>"

text \<open>A response whose field \<open>transcription\<close> is present and empty.\<close>

definition falsy_data :: response_data where
  "falsy_data = \<lparr>data_transcription = Some [], data_text = Some ''hi''\<rparr>"

text \<open>A world whose history is full.\<close>

definition full_world :: world where
  "full_world =
     (mount Map.empty)
       \<lparr>history := [stored_item 9, stored_item 8, stored_item 7, stored_item 6, stored_item 5,
                    stored_item 4, stored_item 3, stored_item 2, stored_item 1, stored_item 0],
        objectUrls := [''blob:0'', ''blob:1'', ''blob:2'', ''blob:3'', ''blob:4'',
                       ''blob:5'', ''blob:6'', ''blob:7'', ''blob:8'', ''blob:9'']\<rparr>"


section \<open>Facts about the handlers\<close>

lemma handleFileUpload_accepts:
  assumes "startsWith (file_type f) ''audio/''" and "file_size f \<le> maxFileSize"
  shows "handleFileUpload (Some f) w =
           w\<lparr>error := [], success := False,
             objectUrls := objectUrls w @ [''blob:'' @ decimal (length (objectUrls w))],
             audioUrl := ''blob:'' @ decimal (length (objectUrls w)),
             loading := True, transcript := [], uploadController := Some (length (fetches w)),
             fetches := fetches w @ [\<lparr>req_controller = length (fetches w), req_filename = file_name f,
                                      req_audioUrl = ''blob:'' @ decimal (length (objectUrls w))\<rparr>]\<rparr>"
  using assms
  by (simp add: handleFileUpload_def createObjectURL_def sendAudioToBackend_def Let_def)

lemma resume_transcribed:
  assumes "req_controller r \<notin> set (abortedControllers w)"
  shows "sendAudioToBackend_resume r (FetchResponded True st (JsonParsed d)) clk w =
           w\<lparr>transcript := pick_transcription d, success := True,
             history := history_updater
               (make_historyItem clk (pick_transcription d) (req_filename r) (req_audioUrl r)) (history w),
             loading := False, uploadController := None\<rparr>"
  using assms
  by (simp add: sendAudioToBackend_resume_def observed_def finally_block_def on_success_def Let_def)


lemma resume_revokes_nothing: "revokedUrls (sendAudioToBackend_resume r ex clk w) = revokedUrls w"
  by (simp add: sendAudioToBackend_resume_def finally_block_def catch_block_def on_success_def Let_def
      split: exchange.splits json_result.splits)

lemma audio_file_ok: "startsWith (file_type audio_file) ''audio/'' \<and> file_size audio_file \<le> maxFileSize"
  by (simp add: audio_file_def startsWith_def maxFileSize_def)

lemma upload_at_eq:
  assumes "length (fetches w) \<notin> set (abortedControllers w)"
  shows "upload_at clk w =
     w\<lparr>error := [], success := True,
       objectUrls := objectUrls w @ [''blob:'' @ decimal (length (objectUrls w))],
       audioUrl := ''blob:'' @ decimal (length (objectUrls w)),
       loading := False, transcript := ''hi'', uploadController := None,
       fetches := fetches w @ [\<lparr>req_controller = length (fetches w), req_filename = ''memo.mp3'',
                                req_audioUrl = ''blob:'' @ decimal (length (objectUrls w))\<rparr>],
       history := history_updater
          (make_historyItem clk ''hi'' ''memo.mp3''
             (''blob:'' @ decimal (length (objectUrls w)))) (history w)\<rparr>"
  using assms audio_file_ok
  by (simp add: upload_at_def settle_latest_def handleFileUpload_accepts hi_response_def
      resume_transcribed pick_transcription_def or_else_def audio_file_def)

lemma take_append_take: "take n (xs @ take n ys) = take n (xs @ ys)"
  by (simp add: min_def)

lemma insert_all_take: "length h \<le> 10 \<Longrightarrow> insert_all items h = take 10 (rev items @ h)"
proof (induction items arbitrary: h)
  case Nil
  then show ?case by simp
next
  case (Cons item items)
  have "insert_all (item # items) h = take 10 (rev items @ take 10 (item # h))"
    using Cons.IH [of "history_updater item h"] by (simp add: history_updater_def)
  also have "\<dots> = take 10 (rev (item # items) @ h)"
    by (simp only: take_append_take) simp
  finally show ?case .
qed

lemma updater_full: "length h = 10 \<Longrightarrow> history_updater item h = item # butlast h"
  by (simp add: history_updater_def butlast_conv_take)

lemma count_words_hi: "count_words ''hi'' = 1"
  by (simp add: count_words_def is_space_def)

lemma make_stored: "make_historyItem (clock_at n) ''hi'' ''memo.mp3'' (''blob:'' @ decimal n) = stored_item n"
  by (simp add: make_historyItem_def clock_at_def stored_item_def count_words_hi)

lemma clearCurrent_keeps_history: "history (clearCurrent w) = history w"
  by (simp add: clearCurrent_def revokeObjectURL_def Let_def)

lemma clearCurrent_revokes:
  "revokedUrls (clearCurrent w) = (if audioUrl w \<noteq> [] then revokedUrls w @ [audioUrl w] else revokedUrls w)"
  by (simp add: clearCurrent_def revokeObjectURL_def Let_def)

lemma clearCurrent_resets:
  "transcript (clearCurrent w) = [] \<and> audioUrl (clearCurrent w) = []
   \<and> error (clearCurrent w) = [] \<and> \<not> success (clearCurrent w)"
  by (simp add: clearCurrent_def revokeObjectURL_def Let_def)

lemma first_upload:
  "history (upload_at (clock_at 0) (mount Map.empty)) = [stored_item 0]"
  "audioUrl (upload_at (clock_at 0) (mount Map.empty)) = ''blob:0''"
  "revokedUrls (upload_at (clock_at 0) (mount Map.empty)) = []"
  "success (upload_at (clock_at 0) (mount Map.empty))"
  "error (upload_at (clock_at 0) (mount Map.empty)) = []"
proof -
  have f: "length (fetches (mount Map.empty)) \<notin> set (abortedControllers (mount Map.empty))"
    by (simp add: mount_def)
  have n: "length (objectUrls (mount Map.empty)) = 0" and h: "history (mount Map.empty) = []"
    and r: "revokedUrls (mount Map.empty) = []"
    by (simp_all add: mount_def)
  have d: "''blob:'' @ decimal 0 = ''blob:0''"
    by (simp add: decimal.simps digit_char_def)
  have "history (upload_at (clock_at 0) (mount Map.empty)) =
          history_updater (make_historyItem (clock_at 0) ''hi'' ''memo.mp3''
            (''blob:'' @ decimal (length (objectUrls (mount Map.empty))))) (history (mount Map.empty))"
    by (simp add: upload_at_eq [OF f])
  then show "history (upload_at (clock_at 0) (mount Map.empty)) = [stored_item 0]"
    by (simp only: n h make_stored) (simp add: history_updater_def)
  have "audioUrl (upload_at (clock_at 0) (mount Map.empty)) =
          ''blob:'' @ decimal (length (objectUrls (mount Map.empty)))"
    by (simp add: upload_at_eq [OF f])
  then show "audioUrl (upload_at (clock_at 0) (mount Map.empty)) = ''blob:0''"
    by (simp only: n d)
  show "revokedUrls (upload_at (clock_at 0) (mount Map.empty)) = []"
    by (simp add: upload_at_eq [OF f] r)
  show "success (upload_at (clock_at 0) (mount Map.empty))"
    by (simp add: upload_at_eq [OF f])
  show "error (upload_at (clock_at 0) (mount Map.empty)) = []"
    by (simp add: upload_at_eq [OF f])
qed

lemma first_upload_world:
  "upload_at (clock_at 0) (mount Map.empty) =
     (mount Map.empty)\<lparr>success := True, objectUrls := [''blob:0''], audioUrl := ''blob:0'',
        transcript := ''hi'', fetches := [\<lparr>req_controller = 0, req_filename = ''memo.mp3'', req_audioUrl = ''blob:0''\<rparr>],
        history := [stored_item 0]\<rparr>"
proof -
  have f: "length (fetches (mount Map.empty)) \<notin> set (abortedControllers (mount Map.empty))"
    by (simp add: mount_def)
  have d: "''blob:'' @ decimal 0 = ''blob:0''"
    by (simp add: decimal.simps digit_char_def)
  have i: "make_historyItem (clock_at 0) ''hi'' ''memo.mp3'' ''blob:0'' = stored_item 0"
    using make_stored [of 0] by (simp only: d)
  have n: "length (objectUrls (mount Map.empty)) = 0"
    by (simp add: mount_def)
  show ?thesis
    by (simp only: upload_at_eq [OF f] n d i) (simp add: mount_def history_updater_def)
qed

lemma resume_transcript:
  assumes "req_controller r \<notin> set (abortedControllers w)"
  shows "transcript (sendAudioToBackend_resume r (FetchResponded True st (JsonParsed d)) clk w)
           = pick_transcription d"
  by (simp add: resume_transcribed [OF assms])

lemma rejected_aux:
  "error (handleFileUpload (Some png_file) (upload_at (clock_at 0) (mount Map.empty))) \<noteq> []"
proof -
  have "\<not> startsWith (file_type png_file) ''audio/''"
    by (simp add: png_file_def startsWith_def)
  then have "handleFileUpload (Some png_file) (upload_at (clock_at 0) (mount Map.empty)) =
      (upload_at (clock_at 0) (mount Map.empty))\<lparr>error := ''Please select a valid audio file''\<rparr>"
    by (simp add: handleFileUpload_def)
  then show ?thesis
    by simp
qed

lemma ids_of_items: "map item_id (map item_of xs) = map (\<lambda>x. now (fst x)) xs"
  by (induction xs) (auto simp: item_of_def make_historyItem_def)

lemma sorted_wrt_greater_distinct: "sorted_wrt (>) (xs :: int list) \<Longrightarrow> distinct xs"
  by (induction xs) auto

section \<open>Facts about JSON\<close>

subsection \<open>The lexer reads what is printed\<close>














subsection \<open>The parser reads the tokens of a history\<close>










section \<open>Properties\<close>

text \<open>
  C1. Whatever records are inserted into a history of at most ten records, the history
  holds at most ten records afterwards and is the ten newest in the order newest first:
  the record inserted last is at index 0. Once the history holds ten records, an
  insertion drops exactly its last record. The insertion is what a transcribed upload
  does to the history.
\<close>

theorem history_bounded_newest_first:
  assumes "length h0 \<le> 10"
  shows "length (insert_all items h0) \<le> 10
     \<and> insert_all items h0 = take 10 (rev items @ h0)
     \<and> (items \<noteq> [] \<longrightarrow> insert_all items h0 ! 0 = last items)
     \<and> (length (insert_all items h0) = 10 \<longrightarrow>
           history_updater item (insert_all items h0) = item # butlast (insert_all items h0)
           \<and> length (history_updater item (insert_all items h0)) = 10)
     \<and> (req_controller r \<notin> set (abortedControllers w) \<longrightarrow>
           history (sendAudioToBackend_resume r (FetchResponded True st (JsonParsed d)) clk w) =
             history_updater
               (make_historyItem clk (pick_transcription d) (req_filename r) (req_audioUrl r))
               (history w))"
proof -
  have eq: "insert_all items h0 = take 10 (rev items @ h0)"
    using assms by (rule insert_all_take)
  have len: "length (insert_all items h0) \<le> 10"
    by (simp add: eq)
  have newest: "items \<noteq> [] \<longrightarrow> insert_all items h0 ! 0 = last items"
    by (simp add: eq nth_append last_conv_nth rev_nth)
  have evict: "length (insert_all items h0) = 10 \<longrightarrow>
           history_updater item (insert_all items h0) = item # butlast (insert_all items h0)
           \<and> length (history_updater item (insert_all items h0)) = 10"
    by (simp add: updater_full)
  have code: "req_controller r \<notin> set (abortedControllers w) \<longrightarrow>
           history (sendAudioToBackend_resume r (FetchResponded True st (JsonParsed d)) clk w) =
             history_updater
               (make_historyItem clk (pick_transcription d) (req_filename r) (req_audioUrl r))
               (history w)"
    by (simp add: resume_transcribed)
  from len eq newest evict code show ?thesis by blast
qed

theorem history_bounded_newest_first_witness:
  "length (history full_world) \<le> 10
   \<and> insert_all [stored_item 10] (history full_world) ! 0 = stored_item 10
   \<and> length (insert_all [stored_item 10] (history full_world)) = 10
   \<and> history_updater (stored_item 11) (insert_all [stored_item 10] (history full_world))
       = stored_item 11 # butlast (insert_all [stored_item 10] (history full_world))"
proof -
  let ?H = "history full_world"
  have h: "length ?H \<le> 10"
    by (simp add: full_world_def)
  note T = history_bounded_newest_first [OF h, of "[stored_item 10]" "stored_item 11"]
  have l: "length (insert_all [stored_item 10] ?H) = 10"
    by (simp add: full_world_def history_updater_def)
  from T have "[stored_item 10] \<noteq> [] \<longrightarrow> insert_all [stored_item 10] ?H ! 0 = last [stored_item 10]"
    by blast
  then have n: "insert_all [stored_item 10] ?H ! 0 = stored_item 10"
    by simp
  from T l have e: "history_updater (stored_item 11) (insert_all [stored_item 10] ?H)
       = stored_item 11 # butlast (insert_all [stored_item 10] ?H)"
    by blast
  from h n l e show ?thesis by blast
qed

text \<open>
  C2. The history of \<open>full_world\<close> holds ten records, the oldest with the URL
  \<open>blob:0\<close>. A further transcribed upload drops that record from the history, and
  no URL at all is revoked: the URL of the dropped record stays allocated.
\<close>

theorem truncation_revokes_nothing:
  "length (history full_world) = 10
   \<and> item_audioUrl (last (history full_world)) = ''blob:0''
   \<and> length (history (upload_at (clock_at 10) full_world)) = 10
   \<and> ''blob:0'' \<notin> set (map item_audioUrl (history (upload_at (clock_at 10) full_world)))
   \<and> revokedUrls (upload_at (clock_at 10) full_world) = []"
proof -
  have f: "length (fetches full_world) \<notin> set (abortedControllers full_world)"
    by (simp add: full_world_def mount_def)
  have n: "length (objectUrls full_world) = 10" and m: "length (history full_world) = 10"
    by (simp_all add: full_world_def mount_def)
  have "history (upload_at (clock_at 10) full_world) =
          history_updater (make_historyItem (clock_at 10) ''hi'' ''memo.mp3''
            (''blob:'' @ decimal (length (objectUrls full_world)))) (history full_world)"
    by (simp add: upload_at_eq [OF f])
  then have u: "history (upload_at (clock_at 10) full_world) =
             stored_item 10 # butlast (history full_world)"
    by (simp only: n make_stored updater_full [OF m])
  have r: "revokedUrls (upload_at (clock_at 10) full_world) = []"
    by (simp add: upload_at_eq [OF f]) (simp add: full_world_def mount_def)
  have urls: "map item_audioUrl (stored_item 10 # butlast (history full_world)) =
      [''blob:10'', ''blob:9'', ''blob:8'', ''blob:7'', ''blob:6'', ''blob:5'', ''blob:4'',
       ''blob:3'', ''blob:2'', ''blob:1'']"
    by (simp add: full_world_def stored_item_def decimal.simps digit_char_def)
  have l: "item_audioUrl (last (history full_world)) = ''blob:0''"
    by (simp add: full_world_def stored_item_def decimal.simps digit_char_def)
  show ?thesis
    by (simp only: u urls r l) (simp add: full_world_def)
qed



text \<open>
  C4. After one transcribed upload the URL \<open>blob:0\<close> is the audio shown and the
  audio of the record in the history; \<open>clearCurrent\<close> revokes it while the record
  stays. The same happens to the URL of a record that \<open>loadFromHistory\<close> has
  brought back.
\<close>

theorem clearCurrent_revokes_history_url:
  "map item_audioUrl (history (clearCurrent (upload_at (clock_at 0) (mount Map.empty)))) = [''blob:0'']
   \<and> revokedUrls (clearCurrent (upload_at (clock_at 0) (mount Map.empty))) = [''blob:0'']
   \<and> stored_item 3 \<in> set (history (clearCurrent (loadFromHistory (stored_item 3) full_world)))
   \<and> revokedUrls (clearCurrent (loadFromHistory (stored_item 3) full_world)) = [item_audioUrl (stored_item 3)]"
proof -
  have a: "map item_audioUrl (history (clearCurrent (upload_at (clock_at 0) (mount Map.empty)))) = [''blob:0'']"
    by (simp add: clearCurrent_keeps_history first_upload stored_item_def decimal.simps digit_char_def)
  have b: "revokedUrls (clearCurrent (upload_at (clock_at 0) (mount Map.empty))) = [''blob:0'']"
    by (simp add: clearCurrent_revokes first_upload)
  have c: "stored_item 3 \<in> set (history (clearCurrent (loadFromHistory (stored_item 3) full_world)))"
    by (simp add: clearCurrent_keeps_history loadFromHistory_def full_world_def)
  have e: "item_audioUrl (stored_item 3) \<noteq> []"
    by (simp add: stored_item_def)
  have d: "revokedUrls (clearCurrent (loadFromHistory (stored_item 3) full_world)) = [item_audioUrl (stored_item 3)]"
    using e by (simp add: clearCurrent_revokes loadFromHistory_def full_world_def mount_def)
  from a b c d show ?thesis by blast
qed





text \<open>
  C5. The type is checked before the size, so a file that fails both checks is
  rejected for its type: an \<open>image/png\<close> of ten mebibytes and one byte gets the
  message of the type check, not the message of the size check.
\<close>

theorem oversize_png_gets_type_error:
  "file_size big_png_file > 10 * 1024 * 1024
   \<and> error (handleFileUpload (Some big_png_file) (mount Map.empty)) = ''Please select a valid audio file''
   \<and> error (handleFileUpload (Some big_png_file) (mount Map.empty)) \<noteq> ''File size must be less than 10MB''"
  by (simp add: handleFileUpload_def big_png_file_def startsWith_def)

text \<open>
  C5, as the handler does it. A file whose type does not begin with \<open>audio/\<close> is
  rejected with the message of the type check; a file whose type begins with
  \<open>audio/\<close> and whose size exceeds 10 * 1024 * 1024 bytes is rejected with the message
  of the size check; in both cases no object URL is created and no request is sent. A file
  of type \<open>audio/\<close> and of exactly 10 * 1024 * 1024 bytes passes: an object URL is
  created for it and a request with its name is sent.
\<close>

theorem handleFileUpload_validation:
  "(\<not> startsWith (file_type f) ''audio/'' \<longrightarrow>
      error (handleFileUpload (Some f) w) = ''Please select a valid audio file''
      \<and> objectUrls (handleFileUpload (Some f) w) = objectUrls w
      \<and> fetches (handleFileUpload (Some f) w) = fetches w
      \<and> loading (handleFileUpload (Some f) w) = loading w
      \<and> history (handleFileUpload (Some f) w) = history w)
   \<and> (startsWith (file_type f) ''audio/'' \<and> file_size f > 10 * 1024 * 1024 \<longrightarrow>
      error (handleFileUpload (Some f) w) = ''File size must be less than 10MB''
      \<and> objectUrls (handleFileUpload (Some f) w) = objectUrls w
      \<and> fetches (handleFileUpload (Some f) w) = fetches w
      \<and> loading (handleFileUpload (Some f) w) = loading w
      \<and> history (handleFileUpload (Some f) w) = history w)
   \<and> (startsWith (file_type f) ''audio/'' \<and> file_size f = 10 * 1024 * 1024 \<longrightarrow>
      error (handleFileUpload (Some f) w) = []
      \<and> loading (handleFileUpload (Some f) w)
      \<and> uploadController (handleFileUpload (Some f) w) = Some (length (fetches w))
      \<and> objectUrls (handleFileUpload (Some f) w) = objectUrls w @ [audioUrl (handleFileUpload (Some f) w)]
      \<and> fetches (handleFileUpload (Some f) w) =
          fetches w @ [\<lparr>req_controller = length (fetches w), req_filename = file_name f,
                         req_audioUrl = audioUrl (handleFileUpload (Some f) w)\<rparr>])"
proof -
  have bad_type: "\<not> startsWith (file_type f) ''audio/'' \<Longrightarrow>
      handleFileUpload (Some f) w = w\<lparr>error := ''Please select a valid audio file''\<rparr>"
    by (simp add: handleFileUpload_def)
  have too_big: "startsWith (file_type f) ''audio/'' \<Longrightarrow> file_size f > 10 * 1024 * 1024 \<Longrightarrow>
      handleFileUpload (Some f) w = w\<lparr>error := ''File size must be less than 10MB''\<rparr>"
    by (simp add: handleFileUpload_def maxFileSize_def)
  have fits: "startsWith (file_type f) ''audio/'' \<Longrightarrow> file_size f = 10 * 1024 * 1024 \<Longrightarrow>
      file_size f \<le> maxFileSize"
    by (simp add: maxFileSize_def)
  show ?thesis
  proof (intro conjI impI)
    assume "startsWith (file_type f) ''audio/'' \<and> file_size f = 10 * 1024 * 1024"
    then have a: "startsWith (file_type f) ''audio/''" and b: "file_size f \<le> maxFileSize"
      using fits by blast+
    note eq = handleFileUpload_accepts [OF a b, of w]
    show "error (handleFileUpload (Some f) w) = []" by (simp add: eq)
    show "loading (handleFileUpload (Some f) w)" by (simp add: eq)
    show "uploadController (handleFileUpload (Some f) w) = Some (length (fetches w))" by (simp add: eq)
    show "objectUrls (handleFileUpload (Some f) w) = objectUrls w @ [audioUrl (handleFileUpload (Some f) w)]"
      by (simp add: eq)
    show "fetches (handleFileUpload (Some f) w) =
          fetches w @ [\<lparr>req_controller = length (fetches w), req_filename = file_name f,
                         req_audioUrl = audioUrl (handleFileUpload (Some f) w)\<rparr>]"
      by (simp add: eq)
  qed (simp_all add: bad_type too_big)
qed

theorem handleFileUpload_validation_witness:
  "\<not> startsWith (file_type png_file) ''audio/''
   \<and> error (handleFileUpload (Some png_file) (mount Map.empty)) = ''Please select a valid audio file''
   \<and> fetches (handleFileUpload (Some png_file) (mount Map.empty)) = []
   \<and> startsWith (file_type big_audio_file) ''audio/'' \<and> file_size big_audio_file > 10 * 1024 * 1024
   \<and> error (handleFileUpload (Some big_audio_file) (mount Map.empty)) = ''File size must be less than 10MB''
   \<and> objectUrls (handleFileUpload (Some big_audio_file) (mount Map.empty)) = []
   \<and> startsWith (file_type full_audio_file) ''audio/'' \<and> file_size full_audio_file = 10 * 1024 * 1024
   \<and> loading (handleFileUpload (Some full_audio_file) (mount Map.empty))
   \<and> uploadController (handleFileUpload (Some full_audio_file) (mount Map.empty)) = Some 0"
proof -
  have p: "\<not> startsWith (file_type png_file) ''audio/''"
    by (simp add: png_file_def startsWith_def)
  have b: "startsWith (file_type big_audio_file) ''audio/'' \<and> file_size big_audio_file > 10 * 1024 * 1024"
    by (simp add: big_audio_file_def startsWith_def)
  have e: "startsWith (file_type full_audio_file) ''audio/'' \<and> file_size full_audio_file = 10 * 1024 * 1024"
    by (simp add: full_audio_file_def startsWith_def)
  have m: "fetches (mount Map.empty) = []" "objectUrls (mount Map.empty) = []"
    by (simp_all add: mount_def)
  from handleFileUpload_validation [of png_file "mount Map.empty"] p
  have 1: "error (handleFileUpload (Some png_file) (mount Map.empty)) = ''Please select a valid audio file''
     \<and> fetches (handleFileUpload (Some png_file) (mount Map.empty)) = []"
    by (simp add: m)
  from handleFileUpload_validation [of big_audio_file "mount Map.empty"] b
  have 2: "error (handleFileUpload (Some big_audio_file) (mount Map.empty)) = ''File size must be less than 10MB''
     \<and> objectUrls (handleFileUpload (Some big_audio_file) (mount Map.empty)) = []"
    by (simp add: m)
  from handleFileUpload_validation [of full_audio_file "mount Map.empty"] e
  have 3: "loading (handleFileUpload (Some full_audio_file) (mount Map.empty))
     \<and> uploadController (handleFileUpload (Some full_audio_file) (mount Map.empty)) = Some 0"
    by (simp add: m)
  from p b e 1 2 3 show ?thesis by blast
qed


text \<open>
  C6. A field \<open>transcription\<close> that is present and empty does not become the
  transcript: the response \<open>{"transcription": "", "text": "hi"}\<close> yields \<open>hi\<close>.
\<close>

theorem empty_transcription_falls_through:
  "data_transcription falsy_data = Some []
   \<and> transcript (settle_latest (FetchResponded True 200 (JsonParsed falsy_data)) (clock_at 0)
        (handleFileUpload (Some audio_file) (mount Map.empty))) = ''hi''"
proof -
  let ?w = "handleFileUpload (Some audio_file) (mount Map.empty)"
  let ?r = "\<lparr>req_controller = 0, req_filename = ''memo.mp3'', req_audioUrl = ''blob:0''\<rparr>"
  have w: "fetches ?w = [?r]" "abortedControllers ?w = []"
    using audio_file_ok
    by (simp_all add: handleFileUpload_accepts mount_def audio_file_def decimal.simps digit_char_def)
  have "settle_latest (FetchResponded True 200 (JsonParsed falsy_data)) (clock_at 0) ?w =
          sendAudioToBackend_resume ?r (FetchResponded True 200 (JsonParsed falsy_data)) (clock_at 0) ?w"
    by (simp add: settle_latest_def w)
  moreover have na: "req_controller ?r \<notin> set (abortedControllers ?w)"
    by (simp add: w)
  ultimately have "transcript (settle_latest (FetchResponded True 200 (JsonParsed falsy_data)) (clock_at 0) ?w)
      = pick_transcription falsy_data"
    using resume_transcript [OF na, of 200 falsy_data "clock_at 0"] by simp
  then show ?thesis
    by (simp add: pick_transcription_def or_else_def falsy_data_def)
qed

text \<open>
  C6, as the handler does it. When a request that was not cancelled is answered with
  success, the transcript is the field \<open>transcription\<close> if it is present and not empty,
  else the field \<open>text\<close> if it is present and not empty, else the text
  \<open>No transcription available\<close>.
\<close>

theorem transcript_of_response:
  assumes "req_controller r \<notin> set (abortedControllers w)"
  shows "(data_transcription d = Some t \<and> t \<noteq> [] \<longrightarrow>
            transcript (sendAudioToBackend_resume r (FetchResponded True st (JsonParsed d)) clk w) = t)
       \<and> ((data_transcription d = None \<or> data_transcription d = Some [])
            \<and> data_text d = Some t \<and> t \<noteq> [] \<longrightarrow>
            transcript (sendAudioToBackend_resume r (FetchResponded True st (JsonParsed d)) clk w) = t)
       \<and> ((data_transcription d = None \<or> data_transcription d = Some [])
            \<and> (data_text d = None \<or> data_text d = Some []) \<longrightarrow>
            transcript (sendAudioToBackend_resume r (FetchResponded True st (JsonParsed d)) clk w)
              = ''No transcription available'')"
  by (auto simp: resume_transcript [OF assms] pick_transcription_def or_else_def)

theorem transcript_of_response_witness:
  "transcript (sendAudioToBackend_resume \<lparr>req_controller = 0, req_filename = ''memo.mp3'', req_audioUrl = ''blob:0''\<rparr>
      (FetchResponded True 200 (JsonParsed \<lparr>data_transcription = Some ''hi'', data_text = None\<rparr>))
      (clock_at 0) (mount Map.empty)) = ''hi''
   \<and> transcript (sendAudioToBackend_resume \<lparr>req_controller = 0, req_filename = ''memo.mp3'', req_audioUrl = ''blob:0''\<rparr>
      (FetchResponded True 200 (JsonParsed \<lparr>data_transcription = None, data_text = Some ''hi''\<rparr>))
      (clock_at 0) (mount Map.empty)) = ''hi''
   \<and> transcript (sendAudioToBackend_resume \<lparr>req_controller = 0, req_filename = ''memo.mp3'', req_audioUrl = ''blob:0''\<rparr>
      (FetchResponded True 200 (JsonParsed \<lparr>data_transcription = None, data_text = None\<rparr>))
      (clock_at 0) (mount Map.empty)) = ''No transcription available''"
proof -
  let ?r = "\<lparr>req_controller = 0, req_filename = ''memo.mp3'', req_audioUrl = ''blob:0''\<rparr>"
  have a: "req_controller ?r \<notin> set (abortedControllers (mount Map.empty))"
    by (simp add: mount_def)
  from transcript_of_response [OF a, of "\<lparr>data_transcription = Some ''hi'', data_text = None\<rparr>" "''hi''" 200 "clock_at 0"]
  have 1: "transcript (sendAudioToBackend_resume ?r
      (FetchResponded True 200 (JsonParsed \<lparr>data_transcription = Some ''hi'', data_text = None\<rparr>))
      (clock_at 0) (mount Map.empty)) = ''hi''"
    by simp
  from transcript_of_response [OF a, of "\<lparr>data_transcription = None, data_text = Some ''hi''\<rparr>" "''hi''" 200 "clock_at 0"]
  have 2: "transcript (sendAudioToBackend_resume ?r
      (FetchResponded True 200 (JsonParsed \<lparr>data_transcription = None, data_text = Some ''hi''\<rparr>))
      (clock_at 0) (mount Map.empty)) = ''hi''"
    by simp
  from transcript_of_response [OF a, of "\<lparr>data_transcription = None, data_text = None\<rparr>" "''hi''" 200 "clock_at 0"]
  have 3: "transcript (sendAudioToBackend_resume ?r
      (FetchResponded True 200 (JsonParsed \<lparr>data_transcription = None, data_text = None\<rparr>))
      (clock_at 0) (mount Map.empty)) = ''No transcription available''"
    by simp
  from 1 2 3 show ?thesis by blast
qed




text \<open>
  C8. After a transcribed upload the success flag is set; an upload that the type check
  then rejects sets the error and leaves the flag, so both are set in one state.
\<close>

theorem rejected_upload_keeps_success:
  "error (handleFileUpload (Some png_file) (upload_at (clock_at 0) (mount Map.empty))) \<noteq> []
   \<and> success (handleFileUpload (Some png_file) (upload_at (clock_at 0) (mount Map.empty)))"
proof -
  have "\<not> startsWith (file_type png_file) ''audio/''"
    by (simp add: png_file_def startsWith_def)
  then have "handleFileUpload (Some png_file) (upload_at (clock_at 0) (mount Map.empty)) =
      (upload_at (clock_at 0) (mount Map.empty))\<lparr>error := ''Please select a valid audio file''\<rparr>"
    by (simp add: handleFileUpload_def)
  then show ?thesis
    by (simp add: first_upload)
qed

text \<open>
  C8, as the component does it. The success box is rendered only while the error is
  empty, so the error box and the success box are never shown together. A new recording
  clears the error and the success flag when it starts and never ends with the flag set;
  an upload of a file that passes both checks clears both before its request is sent.
\<close>

theorem shown_error_excludes_shown_success:
  "\<not> (shows_error w \<and> shows_success w)
   \<and> error (startRecording_begin w) = [] \<and> \<not> success (startRecording_begin w)
   \<and> \<not> success (startRecording m w)
   \<and> (startsWith (file_type f) ''audio/'' \<and> file_size f \<le> 10 * 1024 * 1024 \<longrightarrow>
         error (handleFileUpload (Some f) w) = [] \<and> \<not> success (handleFileUpload (Some f) w)
         \<and> fetches (handleFileUpload (Some f) w) \<noteq> fetches w)"
proof -
  have shown: "\<not> (shows_error w \<and> shows_success w)"
    by (simp add: shows_error_def shows_success_def)
  have rec: "error (startRecording_begin w) = [] \<and> \<not> success (startRecording_begin w)"
    by (simp add: startRecording_begin_def)
  have rec': "\<not> success (startRecording m w)"
    by (cases m) (simp_all add: startRecording_def startRecording_resume_def startRecording_begin_def)
  have up: "startsWith (file_type f) ''audio/'' \<and> file_size f \<le> 10 * 1024 * 1024 \<longrightarrow>
         error (handleFileUpload (Some f) w) = [] \<and> \<not> success (handleFileUpload (Some f) w)
         \<and> fetches (handleFileUpload (Some f) w) \<noteq> fetches w"
    by (simp add: handleFileUpload_accepts maxFileSize_def)
  from shown rec rec' up show ?thesis by blast
qed

theorem shown_error_excludes_shown_success_witness:
  "startsWith (file_type audio_file) ''audio/'' \<and> file_size audio_file \<le> 10 * 1024 * 1024
   \<and> error (handleFileUpload (Some audio_file)
         (handleFileUpload (Some png_file) (upload_at (clock_at 0) (mount Map.empty)))) = []
   \<and> \<not> success (handleFileUpload (Some audio_file)
         (handleFileUpload (Some png_file) (upload_at (clock_at 0) (mount Map.empty))))
   \<and> \<not> shows_success (handleFileUpload (Some png_file) (upload_at (clock_at 0) (mount Map.empty)))"
proof -
  let ?w = "handleFileUpload (Some png_file) (upload_at (clock_at 0) (mount Map.empty))"
  have a: "startsWith (file_type audio_file) ''audio/'' \<and> file_size audio_file \<le> 10 * 1024 * 1024"
    by (simp add: audio_file_def startsWith_def)
  have e: "shows_error ?w"
    using rejected_aux by (simp add: shows_error_def)
  from shown_error_excludes_shown_success [of ?w _ audio_file] a e
  show ?thesis by blast
qed

text \<open>
  C9. The identifier of a record is the reading of the clock at its insertion. Two
  uploads that are transcribed at the same reading leave two different records with the
  same identifier.
\<close>

theorem same_millisecond_same_id:
  "map item_id (history (upload_at (clock_at 0) (upload_at (clock_at 0) (mount Map.empty))))
     = [1700000000000, 1700000000000]
   \<and> map item_audioUrl (history (upload_at (clock_at 0) (upload_at (clock_at 0) (mount Map.empty))))
     = [''blob:1'', ''blob:0'']"
proof -
  let ?w1 = "upload_at (clock_at 0) (mount Map.empty)"
  have f: "length (fetches ?w1) \<notin> set (abortedControllers ?w1)"
    by (simp add: first_upload_world) (simp add: mount_def)
  have n: "length (objectUrls ?w1) = 1"
    by (simp add: first_upload_world)
  have h: "history (upload_at (clock_at 0) ?w1) =
      history_updater (make_historyItem (clock_at 0) ''hi'' ''memo.mp3''
             (''blob:'' @ decimal (length (objectUrls ?w1)))) (history ?w1)"
    by (simp add: upload_at_eq [OF f])
  show ?thesis
    by (simp only: h n first_upload)
       (simp add: history_updater_def make_historyItem_def clock_at_def stored_item_def
          decimal.simps digit_char_def)
qed

text \<open>
  C9, as the handler does it. The identifiers in the history are the clock readings of
  the last ten insertions, newest first. When the readings of the insertions increase
  strictly, the identifiers in the history decrease strictly from index 0 on and are
  pairwise distinct.
\<close>

theorem ids_follow_clock:
  "map item_id (insert_all (map item_of xs) []) = take 10 (rev (map (\<lambda>x. now (fst x)) xs))
   \<and> (sorted_wrt (<) (map (\<lambda>x. now (fst x)) xs) \<longrightarrow>
         sorted_wrt (>) (map item_id (insert_all (map item_of xs) []))
         \<and> distinct (map item_id (insert_all (map item_of xs) [])))"
proof -
  have "insert_all (map item_of xs) [] = take 10 (rev (map item_of xs))"
    using insert_all_take [of "[]" "map item_of xs"] by simp
  moreover have "map item_id (take 10 (rev (map item_of xs))) = take 10 (rev (map item_id (map item_of xs)))"
    by (simp only: take_map rev_map)
  ultimately have ids: "map item_id (insert_all (map item_of xs) []) = take 10 (rev (map (\<lambda>x. now (fst x)) xs))"
    by (simp only: ids_of_items)
  have "sorted_wrt (>) (take 10 (rev (map (\<lambda>x. now (fst x)) xs)))"
    if "sorted_wrt (<) (map (\<lambda>x. now (fst x)) xs)"
  proof -
    from that have "sorted_wrt (>) (rev (map (\<lambda>x. now (fst x)) xs))"
      by (simp only: sorted_wrt_rev)
    then show ?thesis by (rule sorted_wrt_take)
  qed
  with ids show ?thesis
    by (auto dest: sorted_wrt_greater_distinct)
qed

theorem ids_follow_clock_witness:
  "sorted_wrt (<) (map (\<lambda>x. now (fst x))
       [(clock_at 0, ''hi'', ''memo.mp3'', ''blob:0''), (clock_at 1, ''hi'', ''memo.mp3'', ''blob:1'')])
   \<and> map item_id (insert_all (map item_of
       [(clock_at 0, ''hi'', ''memo.mp3'', ''blob:0''), (clock_at 1, ''hi'', ''memo.mp3'', ''blob:1'')]) [])
       = [1700000001000, 1700000000000]
   \<and> distinct (map item_id (insert_all (map item_of
       [(clock_at 0, ''hi'', ''memo.mp3'', ''blob:0''), (clock_at 1, ''hi'', ''memo.mp3'', ''blob:1'')]) []))"
proof -
  let ?xs = "[(clock_at 0, ''hi'', ''memo.mp3'', ''blob:0''), (clock_at 1, ''hi'', ''memo.mp3'', ''blob:1'')]"
  have s: "sorted_wrt (<) (map (\<lambda>x. now (fst x)) ?xs)"
    by (simp add: clock_at_def)
  note T = ids_follow_clock [of ?xs]
  from T have i: "map item_id (insert_all (map item_of ?xs) []) = [1700000001000, 1700000000000]"
    by (simp add: clock_at_def)
  from T s have d: "distinct (map item_id (insert_all (map item_of ?xs) []))"
    by blast
  from s i d show ?thesis by blast
qed

text \<open>
  C10. An event of the file input without a selected file changes nothing: the state of
  the component, the object URLs, the requests and the local storage stay as they are.
\<close>

theorem handleFileUpload_no_file:
  "handleFileUpload None w = w"
  by (simp add: handleFileUpload_def)

end
